theory Spec2Isabelle
  imports Main "HOL-Library.AList"
begin

section \<open>Values, outcomes and the state a request can touch\<close>

text \<open>
  Go values of type \<^verbatim>\<open>interface{}\<close> as far as the dispatch core handles them: the
  argument of \<^verbatim>\<open>panic\<close>, the result of \<^verbatim>\<open>recover()\<close> and the arguments of the
  logging calls. \<open>NilV\<close> is the nil interface value.
\<close>

datatype go_value = NilV | StringV string | ErrorV string | IntV int

text \<open>
  A Go call either returns or leaves its frame panicking with the value given to
  \<^verbatim>\<open>panic\<close>. Effects made before the panic stay visible, so the state is returned in
  both cases.
\<close>

datatype outcome = Returned | Panicking go_value

datatype log_level = INFO | ERROR

datatype json = JString string | JObject "(string \<times> json) list"

datatype resp_body = NoBody | JSONBody json

text \<open>
  The mutable state reachable from a \<^verbatim>\<open>WebContext\<close> during one dispatch: the entries
  written by \<^verbatim>\<open>ctx.LogInfo\<close> and \<^verbatim>\<open>ctx.LogError\<close> (level and argument list, in
  order), the response status and body, the query parameters of the request, and the
  \<^verbatim>\<open>container/list\<close> that the \<^verbatim>\<open>NumberFilter\<close>s of the test cases push to.
  Go's \<^verbatim>\<open>int\<close> is modelled by \<open>int\<close>: no arithmetic is done on status codes.
\<close>

record world =
  logs :: "(log_level \<times> go_value list) list"
  status :: int
  body :: resp_body
  query :: "(string \<times> string) list"
  list_l :: "int list"

definition LogInfo :: "go_value list \<Rightarrow> world \<Rightarrow> world" where
  "LogInfo args w = w\<lparr>logs := logs w @ [(INFO, args)]\<rparr>"

definition LogError :: "go_value list \<Rightarrow> world \<Rightarrow> world" where
  "LogError args w = w\<lparr>logs := logs w @ [(ERROR, args)]\<rparr>"

definition Status :: "int \<Rightarrow> world \<Rightarrow> world" where
  "Status code w = w\<lparr>status := code\<rparr>"

definition JSON :: "int \<Rightarrow> json \<Rightarrow> world \<Rightarrow> world" where
  "JSON code i w = w\<lparr>status := code, body := JSONBody i\<rparr>"

definition PushBack :: "int \<Rightarrow> world \<Rightarrow> world" where
  "PushBack n w = w\<lparr>list_l := list_l w @ [n]\<rparr>"

definition StatusOK :: int where
  "StatusOK = 200"

definition StatusBadRequest :: int where
  "StatusBadRequest = 400"

definition StatusInternalServerError :: int where
  "StatusInternalServerError = 500"

section \<open>Handlers\<close>

text \<open>\<^verbatim>\<open>type HandlerFunc func(WebContext)\<close>: code that runs on the context and may panic.\<close>

type_synonym HandlerFunc = "world \<Rightarrow> outcome \<times> world"

text \<open>
  \<^verbatim>\<open>reflect.Value\<close> as \<^verbatim>\<open>METHOD\<close> uses it: the zero Value, or a bound method. The
  methods of a receiver are taken to have the signature \<^verbatim>\<open>func(WebContext)\<close>.
  \<^verbatim>\<open>MethodByName\<close> gives the zero Value when the receiver has no such method.
  \<^verbatim>\<open>IsZero\<close> panics on the zero Value (package reflect: "It panics if the argument is
  invalid", with a \<^verbatim>\<open>ValueError\<close>) and is false on a method value, which is never nil.
  \<^verbatim>\<open>Call\<close> on the zero Value panics as well.
\<close>

datatype reflect_Value = ZeroValue | FuncValue HandlerFunc

type_synonym receiver = "(string \<times> HandlerFunc) list"

definition MethodByName :: "receiver \<Rightarrow> string \<Rightarrow> reflect_Value" where
  "MethodByName r name = (case map_of r name of None \<Rightarrow> ZeroValue | Some f \<Rightarrow> FuncValue f)"

fun IsZero :: "reflect_Value \<Rightarrow> go_value + bool" where
  "IsZero ZeroValue = Inl (ErrorV ''reflect: call of reflect.Value.IsZero on zero Value'')"
| "IsZero (FuncValue f) = Inr False"

fun Call :: "reflect_Value \<Rightarrow> world \<Rightarrow> outcome \<times> world" where
  "Call (FuncValue f) ctx = f ctx"
| "Call ZeroValue ctx =
     (Panicking (ErrorV ''reflect: call of reflect.Value.Call on zero Value''), ctx)"

record methodHandler =
  receiver :: receiver
  method_value :: reflect_Value
  methodName :: string

text \<open>
  The three implementations of the interface \<^verbatim>\<open>Handler\<close>. The field \<^verbatim>\<open>method\<close> of
  \<^verbatim>\<open>methodHandler\<close> is \<open>method_value\<close> here.
\<close>

datatype Handler =
    fnHandler HandlerFunc
  | methodHandlerPtr methodHandler
  | httpHandler HandlerFunc

fun Handler_Invoke :: "Handler \<Rightarrow> world \<Rightarrow> outcome \<times> world" where
  "Handler_Invoke (fnHandler f) ctx = f ctx"
| "Handler_Invoke (methodHandlerPtr m) ctx = Call (method_value m) ctx"
| "Handler_Invoke (httpHandler h) ctx = h ctx"

definition FUNC :: "HandlerFunc \<Rightarrow> Handler" where
  "FUNC fn = fnHandler fn"

definition HTTP :: "HandlerFunc \<Rightarrow> Handler" where
  "HTTP fn = httpHandler fn"

text \<open>
  \<^verbatim>\<open>METHOD\<close> runs while routes are registered. A panic there is the \<open>Inl\<close> result: no
  handler is built. The panic can come from the guard's own call of \<^verbatim>\<open>IsZero\<close> or from
  the \<^verbatim>\<open>panic\<close> statement that the guard protects.
\<close>

definition METHOD :: "receiver \<Rightarrow> string \<Rightarrow> go_value + Handler" where
  "METHOD r name =
     (let m = MethodByName r name
      in case IsZero m of
           Inl p \<Rightarrow> Inl p
         | Inr zero \<Rightarrow>
             if zero then Inl (ErrorV (''can't find method '' @ name))
             else Inr (methodHandlerPtr \<lparr>receiver = r, method_value = m, methodName = name\<rparr>))"

text \<open>\<^verbatim>\<open>Service.Panic\<close> of the test cases.\<close>

definition Service_Panic :: HandlerFunc where
  "Service_Panic ctx = (Panicking (StringV ''this is a panic''), ctx)"

section \<open>Filters\<close>

text \<open>
  The body of a filter's \<^verbatim>\<open>Invoke(ctx, chain)\<close>: a sequence of statements. \<open>Do\<close> is
  code on the context between two uses of the chain (it may panic), \<open>Defer\<close> registers
  a deferred function, \<open>ChainNext\<close> is the call \<^verbatim>\<open>chain.Next(ctx)\<close>. A deferred function
  sees whether its frame is panicking and decides how the frame goes on, which is what
  \<^verbatim>\<open>recover()\<close> needs.
\<close>

type_synonym deferred = "outcome \<Rightarrow> world \<Rightarrow> outcome \<times> world"

datatype stmt = Do HandlerFunc | Defer deferred | ChainNext

text \<open>
  \<^verbatim>\<open>recover()\<close> in a deferred function: the panic value (nil when the frame is not
  panicking, and nil as well after \<^verbatim>\<open>panic(nil)\<close>, the module being at \<^verbatim>\<open>go 1.12\<close>),
  and the frame no longer panicking.
\<close>

fun recover :: "outcome \<Rightarrow> go_value \<times> outcome" where
  "recover Returned = (NilV, Returned)"
| "recover (Panicking v) = (v, Returned)"

text \<open>
  The implementations of the interface \<^verbatim>\<open>Filter\<close>: the two filters of the container,
  the wrapper of a handler, the filters of the test cases, any other implementation given
  by its body, and the nil interface value.
\<close>

datatype Filter =
    recoveryFilter
  | loggerFilter
  | handlerFilter Handler
  | NumberFilter int
  | StringFilter string
  | InterruptFilter
  | UserFilter "stmt list"
  | nilFilter

definition recoveryFilter_deferred :: deferred where
  "recoveryFilter_deferred out ctx =
     (case recover out of (err, out') \<Rightarrow>
        if err \<noteq> NilV
        then (out', Status StatusInternalServerError
                      (LogError [StringV ''[PANIC RECOVER] '', err] ctx))
        else (out', ctx))"

text \<open>
  \<^verbatim>\<open>Invoke\<close> by dynamic dispatch. The duration that \<^verbatim>\<open>loggerFilter\<close> logs after
  \<^verbatim>\<open>"cost: "\<close> is not modelled. Calling a method on the nil interface value panics.
\<close>

fun Invoke :: "Filter \<Rightarrow> stmt list" where
  "Invoke recoveryFilter = [Defer recoveryFilter_deferred, ChainNext]"
| "Invoke loggerFilter =
     [ChainNext, Do (\<lambda>ctx. (Returned, LogInfo [StringV ''cost: ''] ctx))]"
| "Invoke (handlerFilter fn) = [Do (Handler_Invoke fn)]"
| "Invoke (NumberFilter n) =
     [Defer (\<lambda>out ctx. (out, PushBack n (LogInfo [StringV ''after '', IntV n] ctx))),
      Do (\<lambda>ctx. (Returned, PushBack n (LogInfo [StringV ''before '', IntV n] ctx))),
      ChainNext]"
| "Invoke (StringFilter s) =
     [Defer (\<lambda>out ctx. (out, LogInfo [StringV ''after '', StringV s] ctx)),
      Do (\<lambda>ctx. (Returned, LogInfo [StringV ''before '', StringV s] ctx)),
      ChainNext]"
| "Invoke InterruptFilter = [Do (\<lambda>ctx. (Returned, LogInfo [StringV ''interrupt''] ctx))]"
| "Invoke (UserFilter b) = b"
| "Invoke nilFilter =
     [Do (\<lambda>ctx. (Panicking (ErrorV ''invalid memory address or nil pointer dereference''), ctx))]"

definition defaultRecoveryFilter :: Filter where
  "defaultRecoveryFilter = recoveryFilter"

definition defaultLoggerFilter :: Filter where
  "defaultLoggerFilter = loggerFilter"

section \<open>The filter chain\<close>

text \<open>
  \<^verbatim>\<open>InvokeHandler\<close> calls \<^verbatim>\<open>HandlerFilter\<close>, \<^verbatim>\<open>NewDefaultFilterChain\<close> and the chain's
  \<^verbatim>\<open>Next\<close>, whose file is not among the sources. They follow the spec, section 4.1: the
  chain keeps a cursor that starts at 0; "next" dispatches to the filter at the cursor and
  increments the cursor before invoking it; the terminal handler is the last link; "next"
  past exhaustion is a no-op (the policy that the spec recommends).
\<close>

text \<open>
  Modelled from the spec: \<^verbatim>\<open>HandlerFilter\<close> is missing; it wraps the terminal handler
  as the last link of the chain, a filter that invokes the handler and ignores the chain.
\<close>

definition HandlerFilter :: "Handler \<Rightarrow> Filter" where
  "HandlerFilter fn = handlerFilter fn"

text \<open>
  Modelled from the spec: the type \<^verbatim>\<open>DefaultFilterChain\<close> is missing; it is the fixed
  sequence of filters and the cursor.
\<close>

record DefaultFilterChain =
  filters :: "Filter list"
  "next" :: nat

text \<open>
  Modelled from the spec: \<^verbatim>\<open>NewDefaultFilterChain\<close> is missing; a new chain has its
  cursor at 0.
\<close>

definition NewDefaultFilterChain :: "Filter list \<Rightarrow> DefaultFilterChain" where
  "NewDefaultFilterChain fs = \<lparr>filters = fs, next = 0\<rparr>"

text \<open>Leaving a frame: the deferred functions run, the last registered first.\<close>

fun run_defers :: "deferred list \<Rightarrow> outcome \<Rightarrow> world \<Rightarrow> outcome \<times> world" where
  "run_defers [] out ctx = (out, ctx)"
| "run_defers (g # ds) out ctx = (case g out ctx of (out', ctx') \<Rightarrow> run_defers ds out' ctx')"

text \<open>
  Modelled from the spec: the chain's method \<^verbatim>\<open>Next\<close> is missing. Beyond the last link
  it does nothing; otherwise it takes the filter at the cursor, increments the cursor and
  then invokes the filter. \<open>Next\<close> and the execution of a filter body call each other.
  The chain is one object shared by all frames of a dispatch, so it is threaded through: a
  body gets the chain as the calls before it left it. \<open>Invoke_body ss ds chain ctx\<close> runs
  the statements \<open>ss\<close> of a frame whose deferred functions so far are \<open>ds\<close>: a panic in
  the frame or in a call of \<open>Next\<close> skips the statements left and runs the deferred
  functions.
\<close>

function (sequential)
  Next :: "DefaultFilterChain \<Rightarrow> world \<Rightarrow> (outcome \<times> world) \<times> DefaultFilterChain" and
  Invoke_body :: "stmt list \<Rightarrow> deferred list \<Rightarrow> DefaultFilterChain \<Rightarrow> world
                  \<Rightarrow> (outcome \<times> world) \<times> DefaultFilterChain"
where
  "Next chain ctx =
     (if next chain \<ge> length (filters chain) then ((Returned, ctx), chain)
      else Invoke_body (Invoke (filters chain ! next chain)) []
             (chain\<lparr>next := Suc (next chain)\<rparr>) ctx)"
| "Invoke_body [] ds chain ctx = (run_defers ds Returned ctx, chain)"
| "Invoke_body (Do f # ss) ds chain ctx =
     (case f ctx of
        (Returned, ctx') \<Rightarrow> Invoke_body ss ds chain ctx'
      | (Panicking v, ctx') \<Rightarrow> (run_defers ds (Panicking v) ctx', chain))"
| "Invoke_body (Defer g # ss) ds chain ctx = Invoke_body ss (g # ds) chain ctx"
| "Invoke_body (ChainNext # ss) ds chain ctx =
     (case Next chain ctx of
        ((Returned, ctx'), chain') \<Rightarrow> Invoke_body ss ds chain' ctx'
      | ((Panicking v, ctx'), chain') \<Rightarrow> (run_defers ds (Panicking v) ctx', chain'))"
  by pat_completeness auto

text \<open>
  Termination: a call never moves the cursor back nor changes the filters, so the number
  of filters beyond the cursor, then the number of statements left in the frame, decrease.
\<close>

lemma chain_grows_dom:
  "Next_Invoke_body_dom (Inl (chain, ctx)) \<Longrightarrow>
     filters (snd (Next chain ctx)) = filters chain \<and>
     next chain \<le> next (snd (Next chain ctx))"
  "Next_Invoke_body_dom (Inr (ss, ds, chain, ctx)) \<Longrightarrow>
     filters (snd (Invoke_body ss ds chain ctx)) = filters chain \<and>
     next chain \<le> next (snd (Invoke_body ss ds chain ctx))"
proof (induction chain ctx and ss ds chain ctx rule: Next_Invoke_body.pinduct)
  case (1 chain ctx)
  then show ?case by (auto simp: Next.psimps)
next
  case (2 ds chain ctx)
  then show ?case by (simp add: Invoke_body.psimps)
next
  case (3 f ss ds chain ctx)
  then show ?case
    by (cases "f ctx") (auto simp: Invoke_body.psimps split: outcome.splits)
next
  case (4 g ss ds chain ctx)
  then show ?case by (simp add: Invoke_body.psimps)
next
  case (5 ss ds chain ctx)
  obtain out ctx' chain' where r: "Next chain ctx = ((out, ctx'), chain')"
    by (metis prod.exhaust)
  from 5(2) r have n1: "filters chain' = filters chain" "next chain \<le> next chain'"
    by simp_all
  show ?case
  proof (cases out)
    case Returned
    from 5(3)[of "(Returned, ctx')" chain' Returned ctx'] r Returned
    have "filters (snd (Invoke_body ss ds chain' ctx')) = filters chain' \<and>
          next chain' \<le> next (snd (Invoke_body ss ds chain' ctx'))"
      by simp
    with n1 5(1) r Returned show ?thesis
      by (simp add: Invoke_body.psimps)
  next
    case (Panicking v)
    with 5(1) r n1 show ?thesis
      by (simp add: Invoke_body.psimps)
  qed
qed

termination Next
proof (relation "inv_image (less_than <*lex*> less_than)
    (\<lambda>x. case x of
        Inl (chain, ctx) \<Rightarrow> (length (filters chain) - next chain, 0)
      | Inr (ss, ds, chain, ctx) \<Rightarrow> (length (filters chain) - next chain, Suc (length ss)))",
    goal_cases)
  case 1
  show ?case by (intro wf_inv_image wf_lex_prod wf_less_than)
next
  case (2 chain ctx)
  then show ?case by auto
next
  case (3 f ss ds chain ctx x y)
  then show ?case by simp
next
  case (4 g ss ds chain ctx)
  then show ?case by simp
next
  case (5 ss ds chain ctx)
  then show ?case by simp
next
  case (6 ss ds chain ctx x y xa ya)
  from chain_grows_dom(1)[OF 6(4)] 6(1)
  have "filters y = filters chain" "next chain \<le> next y"
    by (metis snd_conv)+
  then show ?case by auto
qed

declare Next.simps [simp del]

text \<open>\<^verbatim>\<open>InvokeHandler\<close>, from the container's source.\<close>

definition InvokeHandler :: "world \<Rightarrow> Handler \<Rightarrow> Filter list \<Rightarrow> outcome \<times> world" where
  "InvokeHandler ctx fn fs =
     (if length fs > 0
      then (let fs' = fs @ [HandlerFilter fn];
                chain = NewDefaultFilterChain fs'
            in fst (Next chain ctx))
      else Handler_Invoke fn ctx)"

section \<open>Filters that call the chain exactly once\<close>

text \<open>
  What a filter does around its one call of \<^verbatim>\<open>chain.Next\<close>: a pre-segment before the
  call, a post-segment written after the call (skipped when the call panics) and a
  deferred post-segment (run in both cases). \<open>calls_next_once f (pre, post, dpost)\<close>
  says that \<open>f\<close>'s \<^verbatim>\<open>Invoke\<close> is made of these three segments around exactly one call
  of \<open>Next\<close>, on every chain and context.
\<close>

type_synonym segments = "(world \<Rightarrow> world) \<times> (world \<Rightarrow> world) \<times> (world \<Rightarrow> world)"

definition calls_next_once :: "Filter \<Rightarrow> segments \<Rightarrow> bool" where
  "calls_next_once f p \<longleftrightarrow>
     (case p of (pre, post, dpost) \<Rightarrow>
        \<forall>chain ctx.
          Invoke_body (Invoke f) [] chain ctx =
            (case Next chain (pre ctx) of
               ((out, ctx'), chain') \<Rightarrow>
                 ((out, dpost (if out = Returned then post ctx' else ctx')), chain')))"






section \<open>The gin adapter's path parameters\<close>

text \<open>
  \<^verbatim>\<open>gin.Context\<close> as far as the path parameters need it: \<^verbatim>\<open>Params\<close>, the key/value
  entries that the engine's router captured, in route order. \<^verbatim>\<open>Param\<close> is gin's lookup:
  the value of the first entry with the key, else the empty string.
\<close>

record gin_Context =
  Params :: "(string \<times> string) list"

fun ByName :: "(string \<times> string) list \<Rightarrow> string \<Rightarrow> string" where
  "ByName [] name = ''''"
| "ByName ((k, v) # ps) name = (if k = name then v else ByName ps name)"

definition Param :: "gin_Context \<Rightarrow> string \<Rightarrow> string" where
  "Param c key = ByName (Params c) key"

text \<open>
  The adapter's \<^verbatim>\<open>Context\<close>. The two caches are nil until first used, which \<open>None\<close>
  stands for. The embedded logger context is left out.
\<close>

record Context =
  ginContext :: gin_Context
  handlerPath :: string
  handlerFunc :: Handler
  pathParamNames :: "string list option"
  pathParamValues :: "string list option"
  wildCardName :: string

definition NewContext :: "string \<Rightarrow> Handler \<Rightarrow> string \<Rightarrow> gin_Context \<Rightarrow> Context" where
  "NewContext path' fn wildCardName' ginCtx =
     \<lparr>ginContext = ginCtx, handlerPath = path', handlerFunc = fn,
      pathParamNames = None, pathParamValues = None, wildCardName = wildCardName'\<rparr>"

text \<open>Go's \<^verbatim>\<open>v[1:]\<close> drops the first byte; a \<open>string\<close> here is a list of bytes.\<close>

definition PathParam :: "Context \<Rightarrow> string \<Rightarrow> string" where
  "PathParam ctx name =
     (let name' = (if name = ''*'' then wildCardName ctx else name);
          v = Param (ginContext ctx) name'
      in if length v > 0 then drop 1 v else '''')"

text \<open>The two enumerations fill their cache on the first call and return it afterwards.\<close>

definition PathParamNames :: "Context \<Rightarrow> string list \<times> Context" where
  "PathParamNames ctx =
     (case pathParamNames ctx of
        None \<Rightarrow>
          (let names = map (\<lambda>entry. if fst entry = wildCardName ctx then ''*'' else fst entry)
                         (Params (ginContext ctx))
           in (names, ctx\<lparr>pathParamNames := Some names\<rparr>))
      | Some names \<Rightarrow> (names, ctx))"

definition PathParamValues :: "Context \<Rightarrow> string list \<times> Context" where
  "PathParamValues ctx =
     (case pathParamValues ctx of
        None \<Rightarrow>
          (let vals = map (\<lambda>entry. if length (snd entry) > 0 then drop 1 (snd entry)
                                    else snd entry)
                        (Params (ginContext ctx))
           in (vals, ctx\<lparr>pathParamValues := Some vals\<rparr>))
      | Some vals \<Rightarrow> (vals, ctx))"

section \<open>The container\<close>

text \<open>\<^verbatim>\<open>time.Duration\<close> is an integer number of nanoseconds.\<close>

record ContainerConfig =
  IP :: string
  Port :: int
  EnableSSL :: bool
  KeyFile :: string
  CertFile :: string
  ReadTimeout :: int
  WriteTimeout :: int

text \<open>
  The container uses the route table, whose file is not among the sources. It follows the
  spec, sections 3 and 4.2: the table is keyed by method and path, keeps insertion order,
  and the last registration of a key wins.
\<close>

text \<open>
  Modelled from the spec: the type \<^verbatim>\<open>Mapper\<close> is missing; one registered route is a
  method, a path pattern, a handler and the route's filters.
\<close>

record Mapper =
  mapper_method :: string
  mapper_path :: string
  mapper_handler :: Handler
  mapper_filters :: "Filter list"

text \<open>
  Modelled from the spec: the type \<^verbatim>\<open>WebMapping\<close> and its constructor
  \<^verbatim>\<open>NewDefaultWebMapping\<close> are missing; the table holds the registrations by method and
  path, in insertion order, and is empty when new.
\<close>

type_synonym WebMapping = "((string \<times> string) \<times> Mapper) list"

definition NewDefaultWebMapping :: WebMapping where
  "NewDefaultWebMapping = []"

text \<open>
  Modelled from the spec: the table's method \<^verbatim>\<open>AddMapper\<close> is missing; it registers the
  route under its method and path, the last registration of a key replacing the earlier.
\<close>

definition WebMapping_AddMapper :: "Mapper \<Rightarrow> WebMapping \<Rightarrow> WebMapping" where
  "WebMapping_AddMapper m t = AList.update (mapper_method m, mapper_path m) m t"

text \<open>
  Modelled from the spec: the table's method \<^verbatim>\<open>Mappers\<close> is missing; it gives the
  registrations in order.
\<close>

definition Mappers :: "WebMapping \<Rightarrow> Mapper list" where
  "Mappers t = map snd t"

text \<open>
  Modelled from the spec: the type \<^verbatim>\<open>Router\<close> is missing; \<^verbatim>\<open>AddRouter\<close> reads its
  field \<^verbatim>\<open>mapping\<close>, the table of the routes registered on the router.
\<close>

record Router =
  mapping :: WebMapping

text \<open>
  \<^verbatim>\<open>BaseWebContainer\<close>, from the source. Its fields carry the prefix \<open>c_\<close>, since
  \<^verbatim>\<open>filters\<close>, \<^verbatim>\<open>loggerFilter\<close> and \<^verbatim>\<open>recoveryFilter\<close> name other things above. The
  route table is an embedded field, so the promoted \<^verbatim>\<open>AddMapper\<close> can only change that
  field.
\<close>

record BaseWebContainer =
  c_WebMapping :: WebMapping
  c_config :: ContainerConfig
  c_filters :: "Filter list"
  c_enableSwg :: bool
  c_loggerFilter :: Filter
  c_recoveryFilter :: Filter

definition NewBaseWebContainer :: "ContainerConfig \<Rightarrow> BaseWebContainer" where
  "NewBaseWebContainer config =
     \<lparr>c_WebMapping = NewDefaultWebMapping,
      c_config = config,
      c_filters = [],
      c_enableSwg = True,
      c_loggerFilter = defaultLoggerFilter,
      c_recoveryFilter = defaultRecoveryFilter\<rparr>"

definition Config :: "BaseWebContainer \<Rightarrow> ContainerConfig" where
  "Config c = c_config c"

definition GetFilters :: "BaseWebContainer \<Rightarrow> Filter list" where
  "GetFilters c = c_filters c"

definition ResetFilters :: "Filter list \<Rightarrow> BaseWebContainer \<Rightarrow> BaseWebContainer" where
  "ResetFilters fs c = c\<lparr>c_filters := fs\<rparr>"

definition AddFilter :: "Filter list \<Rightarrow> BaseWebContainer \<Rightarrow> BaseWebContainer" where
  "AddFilter fs c = c\<lparr>c_filters := c_filters c @ fs\<rparr>"

definition GetLoggerFilter :: "BaseWebContainer \<Rightarrow> Filter" where
  "GetLoggerFilter c = c_loggerFilter c"

definition SetLoggerFilter :: "Filter \<Rightarrow> BaseWebContainer \<Rightarrow> BaseWebContainer" where
  "SetLoggerFilter f c = c\<lparr>c_loggerFilter := f\<rparr>"

definition GetRecoveryFilter :: "BaseWebContainer \<Rightarrow> Filter" where
  "GetRecoveryFilter c = c_recoveryFilter c"

definition SetRecoveryFilter :: "Filter \<Rightarrow> BaseWebContainer \<Rightarrow> BaseWebContainer" where
  "SetRecoveryFilter f c = c\<lparr>c_recoveryFilter := f\<rparr>"

definition AddMapper :: "Mapper \<Rightarrow> BaseWebContainer \<Rightarrow> BaseWebContainer" where
  "AddMapper m c = c\<lparr>c_WebMapping := WebMapping_AddMapper m (c_WebMapping c)\<rparr>"

definition AddRouter :: "Router \<Rightarrow> BaseWebContainer \<Rightarrow> BaseWebContainer" where
  "AddRouter router c = fold AddMapper (Mappers (mapping router)) c"

definition EnableSwagger :: "BaseWebContainer \<Rightarrow> bool" where
  "EnableSwagger c = c_enableSwg c"

definition SetEnableSwagger :: "bool \<Rightarrow> BaseWebContainer \<Rightarrow> BaseWebContainer" where
  "SetEnableSwagger enable c = c\<lparr>c_enableSwg := enable\<rparr>"

text \<open>The operations that change a container after its construction, and runs of them.\<close>

datatype container_op =
    OpAddFilter "Filter list"
  | OpResetFilters "Filter list"
  | OpSetLoggerFilter Filter
  | OpSetRecoveryFilter Filter
  | OpSetEnableSwagger bool
  | OpAddRouter Router
  | OpAddMapper Mapper

fun apply_op :: "container_op \<Rightarrow> BaseWebContainer \<Rightarrow> BaseWebContainer" where
  "apply_op (OpAddFilter fs) c = AddFilter fs c"
| "apply_op (OpResetFilters fs) c = ResetFilters fs c"
| "apply_op (OpSetLoggerFilter f) c = SetLoggerFilter f c"
| "apply_op (OpSetRecoveryFilter f) c = SetRecoveryFilter f c"
| "apply_op (OpSetEnableSwagger b) c = SetEnableSwagger b c"
| "apply_op (OpAddRouter r) c = AddRouter r c"
| "apply_op (OpAddMapper m) c = AddMapper m c"

definition apply_ops :: "container_op list \<Rightarrow> BaseWebContainer \<Rightarrow> BaseWebContainer" where
  "apply_ops ops c = fold apply_op ops c"

section \<open>RPC-style handlers\<close>

text \<open>
  \<^verbatim>\<open>EchoRequest\<close>, \<^verbatim>\<open>EchoResponse\<close> and \<^verbatim>\<open>RpcService.Echo\<close> of the test cases.
\<close>

record EchoRequest =
  Str :: string

record EchoResponse =
  Echo :: string

definition RpcService_Echo :: "EchoRequest \<Rightarrow> EchoResponse" where
  "RpcService_Echo request = \<lparr>Echo = ''echo '' @ Str request\<rparr>"

text \<open>
  A string field of a request struct as a binder sees it by reflection: its name and its
  struct tag, read by key. The keys that matter are \<^verbatim>\<open>form\<close> and \<^verbatim>\<open>query\<close> (the
  name of the parameter to bind from) and \<^verbatim>\<open>binding\<close> and \<^verbatim>\<open>validate\<close> (the rules
  to check). A key that the tag does not have is \<open>None\<close>, or no rules.
\<close>

datatype validator_rule = required | len nat

record struct_field =
  field_name :: string
  form_tag :: "string option"
  query_tag :: "string option"
  binding_tag :: "validator_rule list"
  validate_tag :: "validator_rule list"

text \<open>
  The field of \<^verbatim>\<open>EchoRequest\<close>:
  \<^verbatim>\<open>Str string `query:"str" validate:"required,len=4"`\<close>.
\<close>

definition EchoRequest_Str :: struct_field where
  "EchoRequest_Str =
     \<lparr>field_name = ''Str'', form_tag = None, query_tag = Some ''str'',
      binding_tag = [], validate_tag = [required, len 4]\<rparr>"

text \<open>
  The rules of the validator package: \<^verbatim>\<open>required\<close> asks for a value other than the zero
  value, \<^verbatim>\<open>len=n\<close> for a string of \<open>n\<close> characters (bytes and characters are the same
  for the ASCII values used here).
\<close>

fun validate_field :: "validator_rule \<Rightarrow> string \<Rightarrow> bool" where
  "validate_field required s = (s \<noteq> '''')"
| "validate_field (len n) s = (length s = n)"

text \<open>
  \<^verbatim>\<open>Bind\<close> of gin v1.6.1 (the version in \<^verbatim>\<open>go.mod\<close>) on a request without a body: the
  form binding. It looks a field up in the request's form values, which hold the query
  parameters, under the field's \<^verbatim>\<open>form\<close> tag, or under the field's name when the tag is
  absent or empty; a field whose key is not among the form values keeps its value. It then
  checks the rules of the \<^verbatim>\<open>binding\<close> tag. It reads neither the \<^verbatim>\<open>query\<close> nor the
  \<^verbatim>\<open>validate\<close> tag. The result is the error (\<open>Inl\<close>) or the field's new value.
\<close>

definition gin_form_key :: "struct_field \<Rightarrow> string" where
  "gin_form_key f =
     (case form_tag f of
        None \<Rightarrow> field_name f
      | Some t \<Rightarrow> if t = '''' then field_name f else t)"

definition gin_mapForm :: "struct_field \<Rightarrow> (string \<times> string) list \<Rightarrow> string \<Rightarrow> string" where
  "gin_mapForm f form cur = (case map_of form (gin_form_key f) of None \<Rightarrow> cur | Some v \<Rightarrow> v)"

definition gin_validate :: "struct_field \<Rightarrow> string \<Rightarrow> bool" where
  "gin_validate f v = list_all (\<lambda>t. validate_field t v) (binding_tag f)"

definition gin_Bind :: "struct_field \<Rightarrow> world \<Rightarrow> string \<Rightarrow> string + string" where
  "gin_Bind f ctx cur =
     (let v = gin_mapForm f (query ctx) cur
      in if gin_validate f v then Inr v
         else Inl (''validation failed on field '' @ field_name f))"

text \<open>
  \<^verbatim>\<open>Context.Bind\<close> of the gin adapter, from the source: it hands the value to gin's
  \<^verbatim>\<open>Bind\<close>.
\<close>

definition Bind :: "struct_field \<Rightarrow> world \<Rightarrow> string \<Rightarrow> string + string" where
  "Bind f ctx cur = gin_Bind f ctx cur"

text \<open>\<^verbatim>\<open>ctx.Bind\<close> on a pointer to the zero value of \<^verbatim>\<open>EchoRequest\<close>.\<close>

definition Bind_EchoRequest :: "world \<Rightarrow> string + EchoRequest" where
  "Bind_EchoRequest ctx =
     (let zero = \<lparr>Str = ''''\<rparr>
      in case Bind EchoRequest_Str ctx (Str zero) of
           Inl err \<Rightarrow> Inl err
         | Inr v \<Rightarrow> Inr (zero\<lparr>Str := v\<rparr>))"

text \<open>The JSON encoding of \<^verbatim>\<open>EchoResponse\<close>, by its tag \<^verbatim>\<open>json:"echo"\<close>.\<close>

definition EchoResponse_json :: "EchoResponse \<Rightarrow> json" where
  "EchoResponse_json r = JObject [(''echo'', JString (Echo r))]"

text \<open>
  Modelled from the spec: the handler that \<^verbatim>\<open>BIND\<close> builds is missing. The spec, section
  4.4: its \<^verbatim>\<open>Invoke\<close> binds a zero value of the request type with the context's binder,
  answers a binding or validation failure with a 4xx status and an error body without
  invoking the function, and otherwise invokes the function and writes its response as
  JSON with the status 200. The spec fixes the class of the failure status only; 400 is
  taken here.
\<close>

definition BIND_Invoke ::
  "(world \<Rightarrow> string + 'req) \<Rightarrow> ('req \<Rightarrow> world \<Rightarrow> 'resp \<times> world) \<Rightarrow> ('resp \<Rightarrow> json)
     \<Rightarrow> world \<Rightarrow> outcome \<times> world" where
  "BIND_Invoke bind fn to_json ctx =
     (case bind ctx of
        Inl err \<Rightarrow> (Returned, JSON StatusBadRequest (JObject [(''error'', JString err)]) ctx)
      | Inr request \<Rightarrow>
          (case fn request ctx of
             (response, ctx') \<Rightarrow> (Returned, JSON StatusOK (to_json response) ctx')))"

section \<open>Inputs of the examples\<close>

definition request0 :: world where
  "request0 = \<lparr>logs = [], status = 200, body = NoBody, query = [], list_l = []\<rparr>"

text \<open>A handler that calls \<^verbatim>\<open>panic(nil)\<close>, and one that only logs.\<close>

definition panic_nil :: HandlerFunc where
  "panic_nil ctx = (Panicking NilV, ctx)"





text \<open>
  A field tagged the way gin reads it:
  \<^verbatim>\<open>Str string `form:"str" binding:"required,len=4"`\<close>.
\<close>

definition form_bound_Str :: struct_field where
  "form_bound_Str =
     \<lparr>field_name = ''Str'', form_tag = Some ''str'', query_tag = None,
      binding_tag = [required, len 4], validate_tag = []\<rparr>"

text \<open>A receiver whose only method is \<^verbatim>\<open>Panic\<close>.\<close>

definition service :: receiver where
  "service = [(''Panic'', Service_Panic)]"

text \<open>The two operations that replace a container's logger or recovery filter.\<close>

definition sets_default_filter :: "container_op \<Rightarrow> bool" where
  "sets_default_filter op =
     (case op of OpSetLoggerFilter f \<Rightarrow> True | OpSetRecoveryFilter f \<Rightarrow> True | _ \<Rightarrow> False)"

section \<open>The chain, one link at a time\<close>


lemma Next_exhausted:
  "length (filters chain) \<le> next chain \<Longrightarrow> Next chain ctx = ((Returned, ctx), chain)"
  by (simp add: Next.simps)







lemma calls_next_once_loggerFilter:
  "calls_next_once loggerFilter (\<lambda>ctx. ctx, LogInfo [StringV ''cost: ''], \<lambda>ctx. ctx)"
  by (simp add: calls_next_once_def split: prod.splits outcome.splits)



section \<open>The recovery filter\<close>

text \<open>
  Claim C1 says that the recovery filter turns any panic of a downstream filter or of the
  handler into one error entry and the status 500. It does not for \<^verbatim>\<open>panic(nil)\<close>: a
  handler that calls it behind the default recovery filter leaves the log empty and the
  status at 200, because \<^verbatim>\<open>recover()\<close> gives nil and the guard \<^verbatim>\<open>err != nil\<close> skips the
  two calls.
\<close>

theorem recovery_counterexample:
  "Handler_Invoke (FUNC panic_nil) request0 = (Panicking NilV, request0) \<and>
   InvokeHandler request0 (FUNC panic_nil) [defaultRecoveryFilter] = (Returned, request0) \<and>
   status request0 \<noteq> StatusInternalServerError \<and> logs request0 = []"
  by (simp add: InvokeHandler_def NewDefaultFilterChain_def HandlerFilter_def Next.simps
      defaultRecoveryFilter_def recoveryFilter_deferred_def FUNC_def panic_nil_def request0_def
      StatusInternalServerError_def)

text \<open>
  Claim C1, amended: when the chain behind the recovery filter ends in a panic, whichever
  downstream filter or handler raised it, the recovery filter returns normally, so the
  panic goes no further; when the panic value is not nil it appends exactly one error entry
  to the log and sets the status to 500; after \<^verbatim>\<open>panic(nil)\<close> it changes nothing.
\<close>

theorem recoveryFilter_catches_panic:
  assumes "Next chain ctx = ((Panicking v, ctx'), chain')"
  shows "Invoke_body (Invoke defaultRecoveryFilter) [] chain ctx =
     ((Returned,
       if v = NilV then ctx'
       else ctx'\<lparr>logs := logs ctx' @ [(ERROR, [StringV ''[PANIC RECOVER] '', v])],
                 status := 500\<rparr>),
      chain')"
  using assms
  by (simp add: defaultRecoveryFilter_def recoveryFilter_deferred_def Status_def LogError_def
      StatusInternalServerError_def)

text \<open>
  The test cases' \<^verbatim>\<open>Service.Panic\<close> behind the recovery filter: the chain at the
  handler's link panics, and the recovery filter's frame returns with one error entry and
  the status 500.
\<close>

theorem recoveryFilter_catches_panic_witness:
  "Next \<lparr>filters = [recoveryFilter, handlerFilter (FUNC Service_Panic)], next = 1\<rparr> request0 =
     ((Panicking (StringV ''this is a panic''), request0),
      \<lparr>filters = [recoveryFilter, handlerFilter (FUNC Service_Panic)], next = 2\<rparr>) \<and>
   Invoke_body (Invoke defaultRecoveryFilter) []
       \<lparr>filters = [recoveryFilter, handlerFilter (FUNC Service_Panic)], next = 1\<rparr> request0 =
     ((Returned, request0\<lparr>logs := [(ERROR, [StringV ''[PANIC RECOVER] '',
                                               StringV ''this is a panic''])],
                          status := 500\<rparr>),
      \<lparr>filters = [recoveryFilter, handlerFilter (FUNC Service_Panic)], next = 2\<rparr>)"
proof -
  let ?c = "\<lparr>filters = [recoveryFilter, handlerFilter (FUNC Service_Panic)], next = 1\<rparr>"
  have h: "Next ?c request0 =
     ((Panicking (StringV ''this is a panic''), request0), ?c\<lparr>next := 2\<rparr>)"
    by (simp add: Next.simps FUNC_def Service_Panic_def)
  show ?thesis
    using h recoveryFilter_catches_panic [OF h]
    by (simp add: request0_def)
qed

text \<open>When nothing panics the recovery filter adds nothing.\<close>

lemma recovery_passes_normal_return:
  "Next chain ctx = ((Returned, ctx'), chain') \<Longrightarrow>
   Invoke_body (Invoke recoveryFilter) [] chain ctx = ((Returned, ctx'), chain')"
  by (simp add: recoveryFilter_deferred_def)

section \<open>Order of the segments\<close>



section \<open>Interrupting filters\<close>







section \<open>The dispatch contract\<close>




section \<open>Path parameters\<close>

lemma PathParamValues_NewContext:
  "PathParamValues (NewContext p fn wc g) =
     (map (\<lambda>entry. drop 1 (snd entry)) (Params g),
      (NewContext p fn wc g)
        \<lparr>pathParamValues := Some (map (\<lambda>entry. drop 1 (snd entry)) (Params g))\<rparr>)"
  by (simp add: PathParamValues_def NewContext_def Let_def)

text \<open>
  Claim C4: \<^verbatim>\<open>PathParam\<close> gives the value that the engine stored under the name, without
  its first character, and the empty string when that value is empty; \<^verbatim>\<open>PathParamValues\<close>
  on a new context gives every stored value without its first character, and the same
  list when asked again. For the route \<^verbatim>\<open>/files/*\<close> and the request \<^verbatim>\<open>/files/sub/dir\<close> the
  engine stores \<^verbatim>\<open>/sub/dir\<close> under the wildcard's name, and \<^verbatim>\<open>PathParam("*")\<close> is
  \<^verbatim>\<open>sub/dir\<close>: one separator stripped.
\<close>

theorem PathParam_strips_one_character:
  "PathParam ctx name =
     (case Param (ginContext ctx) (if name = ''*'' then wildCardName ctx else name) of
        [] \<Rightarrow> []
      | c # rest \<Rightarrow> rest) \<and>
   fst (PathParamValues (NewContext p fn wc g)) =
     map (\<lambda>entry. case snd entry of [] \<Rightarrow> [] | c # rest \<Rightarrow> rest) (Params g) \<and>
   fst (PathParamValues (snd (PathParamValues (NewContext p fn wc g)))) =
     fst (PathParamValues (NewContext p fn wc g)) \<and>
   PathParam (NewContext ''/files/*'' fn wc \<lparr>Params = [(wc, ''/sub/dir'')]\<rparr>) ''*'' = ''sub/dir''"
proof (intro conjI)
  show "PathParam ctx name =
     (case Param (ginContext ctx) (if name = ''*'' then wildCardName ctx else name) of
        [] \<Rightarrow> []
      | c # rest \<Rightarrow> rest)"
    by (simp add: PathParam_def Let_def split: list.splits)
next
  have "\<And>v::string. drop 1 v = (case v of [] \<Rightarrow> [] | c # rest \<Rightarrow> rest)"
    by (simp split: list.splits)
  then show "fst (PathParamValues (NewContext p fn wc g)) =
     map (\<lambda>entry. case snd entry of [] \<Rightarrow> [] | c # rest \<Rightarrow> rest) (Params g)"
    by (simp add: PathParamValues_NewContext)
next
  show "fst (PathParamValues (snd (PathParamValues (NewContext p fn wc g)))) =
     fst (PathParamValues (NewContext p fn wc g))"
    by (simp add: PathParamValues_NewContext) (simp add: PathParamValues_def)
next
  show "PathParam (NewContext ''/files/*'' fn wc \<lparr>Params = [(wc, ''/sub/dir'')]\<rparr>) ''*'' =
      ''sub/dir''"
    by (simp add: PathParam_def NewContext_def Param_def)
qed

text \<open>gin's lookup gives the value of the first entry with the key.\<close>

lemma ByName_first:
  "i < length ps \<Longrightarrow> fst (ps ! i) = k \<Longrightarrow> \<forall>j<i. fst (ps ! j) \<noteq> k \<Longrightarrow>
   ByName ps k = snd (ps ! i)"
proof (induction ps arbitrary: i)
  case Nil
  then show ?case by simp
next
  case (Cons e ps)
  obtain k' v' where e: "e = (k', v')" by (cases e)
  show ?case
  proof (cases i)
    case 0
    with Cons.prems e show ?thesis by simp
  next
    case (Suc i')
    with Cons.prems have "k' \<noteq> k"
      using e by fastforce
    moreover from Suc Cons.prems have "i' < length ps" "fst (ps ! i') = k"
      by simp_all
    moreover from Suc Cons.prems have "\<forall>j<i'. fst (ps ! j) \<noteq> k"
      by fastforce
    ultimately show ?thesis
      using Cons.IH [of i'] Suc e by simp
  qed
qed

text \<open>
  Claim C10: \<^verbatim>\<open>PathParam("*")\<close> is the lookup under the route's wildcard name;
  \<^verbatim>\<open>PathParamNames\<close> on a new context lists the engine's keys with the wildcard name
  replaced by \<^verbatim>\<open>*\<close>; and at the position of the wildcard's entry the enumerated name is
  \<^verbatim>\<open>*\<close> and looking that name up gives the value that \<^verbatim>\<open>PathParamValues\<close> lists at
  the same position, whatever the wildcard's name is.
\<close>

theorem wildcard_addressable_as_star:
  "PathParam ctx ''*'' = PathParam ctx (wildCardName ctx) \<and>
   fst (PathParamNames (NewContext p fn wc g)) =
     map (\<lambda>entry. if fst entry = wc then ''*'' else fst entry) (Params g) \<and>
   (i < length (Params g) \<and> fst (Params g ! i) = wc \<and> (\<forall>j<i. fst (Params g ! j) \<noteq> wc) \<longrightarrow>
      fst (PathParamNames (NewContext p fn wc g)) ! i = ''*'' \<and>
      PathParam (NewContext p fn wc g) (fst (PathParamNames (NewContext p fn wc g)) ! i) =
        fst (PathParamValues (NewContext p fn wc g)) ! i)"
proof (intro conjI impI)
  show "PathParam ctx ''*'' = PathParam ctx (wildCardName ctx)"
    by (simp add: PathParam_def)
next
  show "fst (PathParamNames (NewContext p fn wc g)) =
     map (\<lambda>entry. if fst entry = wc then ''*'' else fst entry) (Params g)"
    by (simp add: PathParamNames_def NewContext_def Let_def)
next
  assume "i < length (Params g) \<and> fst (Params g ! i) = wc \<and> (\<forall>j<i. fst (Params g ! j) \<noteq> wc)"
  then show "fst (PathParamNames (NewContext p fn wc g)) ! i = ''*''"
    by (simp add: PathParamNames_def NewContext_def Let_def)
next
  assume a: "i < length (Params g) \<and> fst (Params g ! i) = wc \<and>
             (\<forall>j<i. fst (Params g ! j) \<noteq> wc)"
  then have "ByName (Params g) wc = snd (Params g ! i)"
    by (intro ByName_first) simp_all
  with a show "PathParam (NewContext p fn wc g)
                 (fst (PathParamNames (NewContext p fn wc g)) ! i) =
               fst (PathParamValues (NewContext p fn wc g)) ! i"
    by (simp add: PathParamNames_def PathParamValues_def PathParam_def NewContext_def Let_def
        Param_def)
qed

text \<open>A route with a named parameter and a wildcard registered as \<^verbatim>\<open>rest\<close>.\<close>

theorem wildcard_addressable_as_star_witness:
  "(1::nat) < length (Params \<lparr>Params = [(''id'', ''42''), (''rest'', ''/sub/dir'')]\<rparr>) \<and>
   fst (Params \<lparr>Params = [(''id'', ''42''), (''rest'', ''/sub/dir'')]\<rparr> ! 1) = ''rest'' \<and>
   fst (PathParamNames (NewContext ''/u/:id/*'' (FUNC Service_Panic) ''rest''
         \<lparr>Params = [(''id'', ''42''), (''rest'', ''/sub/dir'')]\<rparr>)) = [''id'', ''*''] \<and>
   PathParam (NewContext ''/u/:id/*'' (FUNC Service_Panic) ''rest''
         \<lparr>Params = [(''id'', ''42''), (''rest'', ''/sub/dir'')]\<rparr>) ''*'' = ''sub/dir''"
  using wildcard_addressable_as_star [of
      "NewContext ''/u/:id/*'' (FUNC Service_Panic) ''rest''
         \<lparr>Params = [(''id'', ''42''), (''rest'', ''/sub/dir'')]\<rparr>"
      "''/u/:id/*''" "FUNC Service_Panic" "''rest''"
      "\<lparr>Params = [(''id'', ''42''), (''rest'', ''/sub/dir'')]\<rparr>" 1]
  by (simp add: PathParamValues_def PathParamNames_def PathParam_def Param_def NewContext_def)

section \<open>Method handlers\<close>

text \<open>
  What \<^verbatim>\<open>METHOD\<close> does: for a missing name the guard's own \<^verbatim>\<open>IsZero\<close> panics; for a name
  that the receiver has, the handler holds the bound method and invoking it calls that
  method on the context.
\<close>

lemma METHOD_cases:
  "METHOD r name =
     (case map_of r name of
        None \<Rightarrow> Inl (ErrorV ''reflect: call of reflect.Value.IsZero on zero Value'')
      | Some f \<Rightarrow>
          Inr (methodHandlerPtr \<lparr>receiver = r, method_value = FuncValue f, methodName = name\<rparr>))"
  by (simp add: METHOD_def MethodByName_def split: option.splits)

lemma METHOD_found:
  "map_of r name = Some f \<Longrightarrow> \<exists>h. METHOD r name = Inr h \<and> Handler_Invoke h = f"
  by (auto simp: METHOD_cases)

text \<open>
  Claim C6 says that \<^verbatim>\<open>METHOD\<close> with a name that the receiver does not have panics with
  an error naming the method. On a receiver without a method \<^verbatim>\<open>Get\<close>, \<^verbatim>\<open>METHOD\<close> does
  panic while the handler is built, but the panic is the one of \<^verbatim>\<open>reflect.Value.IsZero\<close>
  on the zero Value, which does not name the method; the statement
  \<^verbatim>\<open>panic(errors.New("can't find method " + methodName))\<close> is not reached.
\<close>

theorem METHOD_missing_method:
  "map_of service ''Get'' = None \<and>
   METHOD service ''Get'' =
     Inl (ErrorV ''reflect: call of reflect.Value.IsZero on zero Value'') \<and>
   METHOD service ''Get'' \<noteq> Inl (ErrorV (''can't find method '' @ ''Get''))"
  by (simp add: METHOD_def MethodByName_def service_def)

section \<open>Binding of an RPC-style request\<close>

text \<open>
  gin's binder does bind and validate a field that carries the tags it reads.
\<close>

lemma gin_Bind_form_binding_tags:
  "gin_Bind form_bound_Str (request0\<lparr>query := [(''str'', ''abcd'')]\<rparr>) '''' = Inr ''abcd'' \<and>
   gin_Bind form_bound_Str (request0\<lparr>query := [(''str'', ''ab'')]\<rparr>) '''' =
     Inl ''validation failed on field Str''"
  by (simp add: gin_Bind_def gin_mapForm_def gin_form_key_def gin_validate_def form_bound_Str_def
      request0_def)

text \<open>
  Claim C7 says that \<^verbatim>\<open>str=abcd\<close> binds the field of \<^verbatim>\<open>EchoRequest\<close> and that
  \<^verbatim>\<open>str=ab\<close> fails its validation before the function is invoked. Through the gin
  adapter's \<^verbatim>\<open>Bind\<close> neither happens: the field carries the tags \<^verbatim>\<open>query\<close> and
  \<^verbatim>\<open>validate\<close>, which gin does not read, so for both queries the binding succeeds with
  \<^verbatim>\<open>Str\<close> left empty, and for \<^verbatim>\<open>str=ab\<close> the function is invoked and answers with the
  status 200.
\<close>

theorem Echo_binding_ignores_tags:
  "Bind_EchoRequest (request0\<lparr>query := [(''str'', ''abcd'')]\<rparr>) = Inr \<lparr>Str = ''''\<rparr> \<and>
   Bind_EchoRequest (request0\<lparr>query := [(''str'', ''ab'')]\<rparr>) = Inr \<lparr>Str = ''''\<rparr> \<and>
   BIND_Invoke Bind_EchoRequest (\<lambda>request ctx. (RpcService_Echo request, ctx)) EchoResponse_json
       (request0\<lparr>query := [(''str'', ''ab'')]\<rparr>) =
     (Returned, request0\<lparr>query := [(''str'', ''ab'')], status := 200,
                  body := JSONBody (JObject [(''echo'', JString ''echo '')])\<rparr>)"
  by (simp add: BIND_Invoke_def Bind_EchoRequest_def Bind_def gin_Bind_def gin_mapForm_def
      gin_form_key_def gin_validate_def EchoRequest_Str_def request0_def RpcService_Echo_def
      EchoResponse_json_def JSON_def StatusOK_def)

section \<open>The container's configuration and default filters\<close>

lemma c_config_fold_AddMapper: "c_config (fold AddMapper ms c) = c_config c"
  by (induction ms arbitrary: c) (simp_all add: AddMapper_def)

lemma c_config_apply_op: "c_config (apply_op op c) = c_config c"
  by (cases op)
     (simp_all add: AddFilter_def ResetFilters_def SetLoggerFilter_def SetRecoveryFilter_def
        SetEnableSwagger_def AddRouter_def AddMapper_def c_config_fold_AddMapper)

lemma c_config_fold_apply_op: "c_config (fold apply_op ops c) = c_config c"
  by (induction ops arbitrary: c) (simp_all add: c_config_apply_op)

text \<open>
  Claim C8: after any run of \<^verbatim>\<open>AddFilter\<close>, \<^verbatim>\<open>ResetFilters\<close>, \<^verbatim>\<open>SetLoggerFilter\<close>,
  \<^verbatim>\<open>SetRecoveryFilter\<close>, \<^verbatim>\<open>SetEnableSwagger\<close>, \<^verbatim>\<open>AddRouter\<close> and \<^verbatim>\<open>AddMapper\<close> on a
  new container, \<^verbatim>\<open>Config()\<close> is the configuration that the constructor was given, so
  each of its seven fields is unchanged.
\<close>

theorem Config_immutable:
  "Config (apply_ops ops (NewBaseWebContainer config)) = config"
  by (simp add: Config_def apply_ops_def c_config_fold_apply_op NewBaseWebContainer_def)

lemma default_filters_fold_AddMapper:
  "c_loggerFilter (fold AddMapper ms c) = c_loggerFilter c \<and>
   c_recoveryFilter (fold AddMapper ms c) = c_recoveryFilter c"
  by (induction ms arbitrary: c) (simp_all add: AddMapper_def)

lemma default_filters_apply_op:
  "\<not> sets_default_filter op \<Longrightarrow>
   c_loggerFilter (apply_op op c) = c_loggerFilter c \<and>
   c_recoveryFilter (apply_op op c) = c_recoveryFilter c"
  by (cases op)
     (simp_all add: sets_default_filter_def AddFilter_def ResetFilters_def
        SetEnableSwagger_def AddRouter_def AddMapper_def default_filters_fold_AddMapper)

lemma default_filters_fold_apply_op:
  "\<forall>op \<in> set ops. \<not> sets_default_filter op \<Longrightarrow>
   c_loggerFilter (fold apply_op ops c) = c_loggerFilter c \<and>
   c_recoveryFilter (fold apply_op ops c) = c_recoveryFilter c"
  by (induction ops arbitrary: c) (simp_all add: default_filters_apply_op)

text \<open>
  Claim C9: a new container has Swagger enabled and holds the two package-level default
  filters. After any operations other than \<^verbatim>\<open>SetLoggerFilter\<close> and
  \<^verbatim>\<open>SetRecoveryFilter\<close> its recovery filter is not nil, and two such containers hold the
  same logger filter and the same recovery filter. The two filter types have no fields;
  a filter value here is its dynamic type, and the package-level variables are the values
  \<open>defaultLoggerFilter\<close> and \<open>defaultRecoveryFilter\<close>.
\<close>

theorem NewBaseWebContainer_defaults:
  "EnableSwagger (NewBaseWebContainer config) \<and>
   GetLoggerFilter (NewBaseWebContainer config) = defaultLoggerFilter \<and>
   GetRecoveryFilter (NewBaseWebContainer config) = defaultRecoveryFilter \<and>
   ((\<forall>op \<in> set ops. \<not> sets_default_filter op) \<and>
    (\<forall>op \<in> set ops'. \<not> sets_default_filter op) \<longrightarrow>
      GetRecoveryFilter (apply_ops ops (NewBaseWebContainer config)) \<noteq> nilFilter \<and>
      GetRecoveryFilter (apply_ops ops (NewBaseWebContainer config)) =
        GetRecoveryFilter (apply_ops ops' (NewBaseWebContainer config')) \<and>
      GetLoggerFilter (apply_ops ops (NewBaseWebContainer config)) =
        GetLoggerFilter (apply_ops ops' (NewBaseWebContainer config')))"
proof (intro conjI impI)
  show "EnableSwagger (NewBaseWebContainer config)"
    by (simp add: EnableSwagger_def NewBaseWebContainer_def)
next
  show "GetLoggerFilter (NewBaseWebContainer config) = defaultLoggerFilter"
    by (simp add: GetLoggerFilter_def NewBaseWebContainer_def)
next
  show "GetRecoveryFilter (NewBaseWebContainer config) = defaultRecoveryFilter"
    by (simp add: GetRecoveryFilter_def NewBaseWebContainer_def)
next
  assume a: "(\<forall>op \<in> set ops. \<not> sets_default_filter op) \<and>
             (\<forall>op \<in> set ops'. \<not> sets_default_filter op)"
  then show "GetRecoveryFilter (apply_ops ops (NewBaseWebContainer config)) \<noteq> nilFilter"
    by (simp add: GetRecoveryFilter_def apply_ops_def default_filters_fold_apply_op
        NewBaseWebContainer_def defaultRecoveryFilter_def)
  from a show "GetRecoveryFilter (apply_ops ops (NewBaseWebContainer config)) =
        GetRecoveryFilter (apply_ops ops' (NewBaseWebContainer config'))"
    by (simp add: GetRecoveryFilter_def apply_ops_def default_filters_fold_apply_op
        NewBaseWebContainer_def)
  from a show "GetLoggerFilter (apply_ops ops (NewBaseWebContainer config)) =
        GetLoggerFilter (apply_ops ops' (NewBaseWebContainer config'))"
    by (simp add: GetLoggerFilter_def apply_ops_def default_filters_fold_apply_op
        NewBaseWebContainer_def)
qed

text \<open>Two containers with different configurations and different registrations.\<close>

theorem NewBaseWebContainer_defaults_witness:
  "GetRecoveryFilter (apply_ops [OpAddFilter [NumberFilter 1], OpSetEnableSwagger False]
       (NewBaseWebContainer \<lparr>IP = ''127.0.0.1'', Port = 8080, EnableSSL = False, KeyFile = '''',
          CertFile = '''', ReadTimeout = 0, WriteTimeout = 0\<rparr>)) =
   GetRecoveryFilter (apply_ops [OpResetFilters []]
       (NewBaseWebContainer \<lparr>IP = '''', Port = 9090, EnableSSL = False, KeyFile = '''',
          CertFile = '''', ReadTimeout = 0, WriteTimeout = 0\<rparr>)) \<and>
   GetRecoveryFilter (apply_ops [OpAddFilter [NumberFilter 1], OpSetEnableSwagger False]
       (NewBaseWebContainer \<lparr>IP = ''127.0.0.1'', Port = 8080, EnableSSL = False, KeyFile = '''',
          CertFile = '''', ReadTimeout = 0, WriteTimeout = 0\<rparr>)) = recoveryFilter"
proof -
  have h: "(\<forall>op \<in> set [OpAddFilter [NumberFilter 1], OpSetEnableSwagger False].
              \<not> sets_default_filter op) \<and>
           (\<forall>op \<in> set [OpResetFilters []]. \<not> sets_default_filter op)"
    by (simp add: sets_default_filter_def)
  show ?thesis
    using h NewBaseWebContainer_defaults [of
        "\<lparr>IP = ''127.0.0.1'', Port = 8080, EnableSSL = False, KeyFile = '''',
          CertFile = '''', ReadTimeout = 0, WriteTimeout = 0\<rparr>"
        "[OpAddFilter [NumberFilter 1], OpSetEnableSwagger False]" "[OpResetFilters []]"
        "\<lparr>IP = '''', Port = 9090, EnableSSL = False, KeyFile = '''',
          CertFile = '''', ReadTimeout = 0, WriteTimeout = 0\<rparr>"]
    by (simp add: apply_ops_def AddFilter_def SetEnableSwagger_def GetRecoveryFilter_def
        NewBaseWebContainer_def defaultRecoveryFilter_def)
qed

end
